theory Spec2Isabelle
  imports Main
begin

section \<open>JavaScript values read by the route\<close>

text \<open>
  The route \<^verbatim>\<open>app/routes/app._index.tsx\<close> reads the parsed body of a GraphQL response
  (\<^verbatim>\<open>await response.json()\<close>, typed \<^verbatim>\<open>any\<close>). A parsed JSON value is null, a boolean,
  a number, a string, an array or an object; \<^verbatim>\<open>undefined\<close> is what reading a property
  that is not there gives. An object is the list of its members in the order of the JSON
  text. Numbers are integers here: the route only tests a number for being zero.
\<close>

datatype json =
    JUndefined
  | JNull
  | JBool bool
  | JNum int
  | JStr string
  | JArr "json list"
  | JObj "(string \<times> json) list"

text \<open>ToBoolean: what \<^verbatim>\<open>||\<close> tests on its left operand.\<close>

fun truthy :: "json \<Rightarrow> bool" where
  "truthy JUndefined = False"
| "truthy JNull = False"
| "truthy (JBool b) = b"
| "truthy (JNum n) = (n \<noteq> 0)"
| "truthy (JStr s) = (s \<noteq> [])"
| "truthy (JArr xs) = True"
| "truthy (JObj kvs) = True"

text \<open>\<^verbatim>\<open>a || b\<close>: the left operand when it is truthy, the right one otherwise.\<close>

definition js_or :: "json \<Rightarrow> json \<Rightarrow> json" where
  "js_or a b = (if truthy a then a else b)"

text \<open>
  Reading the property \<open>k\<close> of a value that is neither null nor undefined. Of two members
  with the same key, \<^verbatim>\<open>JSON.parse\<close> keeps the later one. The names the route reads
  (\<^verbatim>\<open>data\<close>, \<^verbatim>\<open>orders\<close>, \<^verbatim>\<open>edges\<close>, \<^verbatim>\<open>pageInfo\<close>, \<^verbatim>\<open>hasNextPage\<close>) are on no built-in
  prototype, so a boolean, a number, a string and an array have none of them.
\<close>

fun get_prop :: "json \<Rightarrow> string \<Rightarrow> json" where
  "get_prop (JObj kvs) k = (case map_of (rev kvs) k of None \<Rightarrow> JUndefined | Some v \<Rightarrow> v)"
| "get_prop v k = JUndefined"

definition nullish :: "json \<Rightarrow> bool" where
  "nullish v = (v = JUndefined \<or> v = JNull)"

datatype exn =
    TypeError
  | AuthenticateThrew
  | FormDataThrew
  | GraphqlThrew string

text \<open>\<^verbatim>\<open>v.k\<close> throws a TypeError on null and undefined; \<^verbatim>\<open>v?.k\<close> gives undefined there.\<close>

definition member :: "json \<Rightarrow> string \<Rightarrow> exn + json" where
  "member v k = (if nullish v then Inl TypeError else Inr (get_prop v k))"

definition opt_chain :: "json \<Rightarrow> string \<Rightarrow> json" where
  "opt_chain v k = (if nullish v then JUndefined else get_prop v k)"

section \<open>Form data\<close>

text \<open>
  A \<^verbatim>\<open>FormData\<close> is a list of entries, each a name with a string or a file.
  \<^verbatim>\<open>formData.get(name)\<close> is the first entry of that name, or null. Strings are sequences
  of code units below 256.
\<close>

datatype form_entry = FString string | FFile string

type_synonym form_data = "(string \<times> form_entry) list"

definition formData_get :: "form_data \<Rightarrow> string \<Rightarrow> form_entry option" where
  "formData_get formData name = map_of formData name"

text \<open>ToString of a \<^verbatim>\<open>FormDataEntryValue | null\<close>, as a template literal and parseInt apply it.\<close>

fun to_string :: "form_entry option \<Rightarrow> string" where
  "to_string None = ''null''"
| "to_string (Some (FString s)) = s"
| "to_string (Some (FFile name)) = ''[object File]''"

section \<open>Numbers and parseInt\<close>

text \<open>
  What \<^verbatim>\<open>parseInt\<close> can return: NaN, an integer that a Number holds, or an infinity.
  Negative zero is not told from zero; \<^verbatim>\<open>||\<close> replaces either by its right operand.
\<close>

datatype number = NaN | Finite int | Infinity | NegInfinity

text \<open>
  The Number for a natural number: the number itself below \<open>2 ^ 53\<close>; beyond, the nearest
  multiple of the power of two that leaves 53 significant bits, the even one of two equally
  near; \<open>None\<close>, for infinity, when that is \<open>2 ^ 1024\<close> or more.
\<close>

fun bit_length :: "nat \<Rightarrow> nat" where
  "bit_length n = (if n = 0 then 0 else Suc (bit_length (n div 2)))"

declare bit_length.simps [simp del]

definition round_to_double :: "nat \<Rightarrow> nat option" where
  "round_to_double n =
     (if n < 2 ^ 53 then Some n
      else
        (let e = bit_length n - 53;
             q = n div 2 ^ e;
             r = n mod 2 ^ e;
             half = 2 ^ (e - 1);
             q' = (if half < r \<or> (r = half \<and> odd q) then q + 1 else q);
             v = q' * 2 ^ e
         in if v < 2 ^ 1024 then Some v else None))"

text \<open>
  \<^verbatim>\<open>parseInt(string)\<close> with no radix: leading white space is dropped, then one sign, then
  a \<^verbatim>\<open>0x\<close> or \<^verbatim>\<open>0X\<close> prefix selects radix 16 (radix 10 otherwise), and the longest
  prefix of digits of that radix is the number, rounded to a Number; with no digit the
  result is NaN.
\<close>

definition is_white :: "char \<Rightarrow> bool" where
  "is_white c = (of_char c \<in> {9, 10, 11, 12, 13, 32, 160 :: nat})"

definition digit_value :: "char \<Rightarrow> nat option" where
  "digit_value c =
     (let n = (of_char c :: nat)
      in if 48 \<le> n \<and> n \<le> 57 then Some (n - 48)
         else if 97 \<le> n \<and> n \<le> 102 then Some (n - 87)
         else if 65 \<le> n \<and> n \<le> 70 then Some (n - 55)
         else None)"

definition radix_digit :: "nat \<Rightarrow> char \<Rightarrow> bool" where
  "radix_digit R c = (case digit_value c of None \<Rightarrow> False | Some d \<Rightarrow> d < R)"

definition digits_value :: "nat \<Rightarrow> string \<Rightarrow> nat" where
  "digits_value R Z = foldl (\<lambda>acc c. acc * R + the (digit_value c)) 0 Z"

definition signed_number :: "bool \<Rightarrow> nat \<Rightarrow> number" where
  "signed_number negative m =
     (case round_to_double m of
        None \<Rightarrow> (if negative then NegInfinity else Infinity)
      | Some v \<Rightarrow> Finite (if negative then - int v else int v))"

definition parseInt :: "string \<Rightarrow> number" where
  "parseInt inputString =
     (let S = dropWhile is_white inputString;
          negative = (take 1 S = ''-'');
          S1 = (if take 1 S = ''+'' \<or> take 1 S = ''-'' then drop 1 S else S);
          hex = (take 2 S1 = ''0x'' \<or> take 2 S1 = ''0X'');
          R = (if hex then 16 else 10);
          S2 = (if hex then drop 2 S1 else S1);
          Z = takeWhile (radix_digit R) S2
      in if Z = [] then NaN else signed_number negative (digits_value R Z))"

text \<open>The code units \<^verbatim>\<open>0\<close> to \<^verbatim>\<open>9\<close>.\<close>

definition decimal_digit :: "char \<Rightarrow> bool" where
  "decimal_digit c = (48 \<le> (of_char c :: nat) \<and> (of_char c :: nat) \<le> 57)"

text \<open>\<^verbatim>\<open>n || d\<close> on a number: NaN and zero are falsy.\<close>

fun num_or :: "number \<Rightarrow> number \<Rightarrow> number" where
  "num_or NaN d = d"
| "num_or (Finite n) d = (if n = 0 then d else Finite n)"
| "num_or Infinity d = Infinity"
| "num_or NegInfinity d = NegInfinity"

section \<open>The action\<close>

text \<open>
  A call of \<^verbatim>\<open>admin.graphql\<close>: the operation of the document and the variables handed
  over. The document of the route is a constant text, the query
  \<^verbatim>\<open>GetOrdersByFinancialStatus\<close>, which declares the variables \<^verbatim>\<open>$first\<close> and
  \<^verbatim>\<open>$query\<close> and no other.
\<close>

record gql_call =
  document :: string
  variables :: "(string \<times> json) list"

text \<open>
  The admin client is a parameter: \<open>admin call\<close> is what
  \<^verbatim>\<open>await admin.graphql(...)\<close> followed by \<^verbatim>\<open>await response.json()\<close> gives, the parsed
  body or the exception one of the two threw.
\<close>

type_synonym admin = "gql_call \<Rightarrow> exn + json"

text \<open>The three object literals the action returns.\<close>

datatype action_return =
    ReturnSearch json json "form_entry option" "form_entry option"
  | ReturnUpdate bool number "form_entry option" "form_entry option"
  | ReturnError string

text \<open>The template literal \<^verbatim>\<open>`financial_status:${fromStatus}`\<close>.\<close>

definition search_query :: "form_entry option \<Rightarrow> string" where
  "search_query fromStatus = ''financial_status:'' @ to_string fromStatus"

definition search_call :: "form_entry option \<Rightarrow> gql_call" where
  "search_call fromStatus =
     \<lparr>document = ''query GetOrdersByFinancialStatus($first: Int!, $query: String!)'',
      variables = [(''first'', JNum 250), (''query'', JStr (search_query fromStatus))]\<rparr>"

text \<open>
  The body of \<^verbatim>\<open>action\<close> from the line that reads \<^verbatim>\<open>actionType\<close> on. The result is what
  the action returns or throws, with the list of the remote calls it made, in order.
\<close>

definition action_body :: "admin \<Rightarrow> form_data \<Rightarrow> (exn + action_return) \<times> gql_call list" where
  "action_body admin formData =
     (let actionType = formData_get formData ''actionType'';
          fromStatus = formData_get formData ''fromStatus'';
          toStatus = formData_get formData ''toStatus''
      in if actionType = Some (FString ''search'') then
           (let call = search_call fromStatus
            in case admin call of
                 Inl e \<Rightarrow> (Inl e, [call])
               | Inr responseJson \<Rightarrow>
                   (case member responseJson ''data'' of
                      Inl e \<Rightarrow> (Inl e, [call])
                    | Inr data \<Rightarrow>
                        (Inr (ReturnSearch
                               (js_or (opt_chain (opt_chain data ''orders'') ''edges'') (JArr []))
                               (js_or (opt_chain (opt_chain (opt_chain data ''orders'') ''pageInfo'')
                                        ''hasNextPage'')
                                  (JBool False))
                               fromStatus toStatus),
                         [call])))
         else if actionType = Some (FString ''update'') then
           (Inr (ReturnUpdate True
                  (num_or (parseInt (to_string (formData_get formData ''orderCount''))) (Finite 0))
                  fromStatus toStatus),
            [])
         else (Inr (ReturnError ''Invalid action''), []))"

text \<open>
  The whole action. \<^verbatim>\<open>authenticate.admin(request)\<close> and \<^verbatim>\<open>request.formData()\<close> belong to
  the framework; each is given by its outcome, the value or the exception thrown.
\<close>

definition action :: "exn + admin \<Rightarrow> exn + form_data \<Rightarrow> (exn + action_return) \<times> gql_call list" where
  "action authenticated body =
     (case authenticated of
        Inl e \<Rightarrow> (Inl e, [])
      | Inr admin \<Rightarrow>
          (case body of
             Inl e \<Rightarrow> (Inl e, [])
           | Inr formData \<Rightarrow> action_body admin formData))"

section \<open>The page a search asks for\<close>

text \<open>
  The body the query document asks for: under \<^verbatim>\<open>data.orders\<close>, the array \<^verbatim>\<open>edges\<close> and
  \<^verbatim>\<open>pageInfo.hasNextPage\<close>. An edge holds its \<^verbatim>\<open>node\<close>, whose \<^verbatim>\<open>id\<close> is the order's
  identifier, and its \<^verbatim>\<open>cursor\<close>.
\<close>

definition orders_page :: "json list \<Rightarrow> bool \<Rightarrow> json" where
  "orders_page edges hasNext =
     JObj [(''data'',
            JObj [(''orders'',
                   JObj [(''edges'', JArr edges),
                         (''pageInfo'', JObj [(''hasNextPage'', JBool hasNext)])])])]"

text \<open>
  The store behind the admin client is not part of the route. It is the Remote Order API
  Client of the design, an external collaborator: \<open>store q\<close> is the whole ordered result
  set of the query \<open>q\<close>, and a call is answered with the first edges of it, at most
  \<^verbatim>\<open>first\<close> and at most the \<open>limit\<close> the store puts on a page, and with whether edges
  remain after them.
\<close>

definition store_remote :: "nat \<Rightarrow> (string \<Rightarrow> json list) \<Rightarrow> admin" where
  "store_remote limit store call =
     (case (map_of (variables call) ''first'', map_of (variables call) ''query'') of
        (Some (JNum n), Some (JStr q)) \<Rightarrow>
          (let k = min limit (nat n)
           in Inr (orders_page (take k (store q)) (k < length (store q))))
      | _ \<Rightarrow> Inl (GraphqlThrew ''variables''))"

definition edge :: "string \<Rightarrow> json" where
  "edge ident = JObj [(''node'', JObj [(''id'', JStr ident)]), (''cursor'', JStr ident)]"

definition edge_id :: "json \<Rightarrow> json" where
  "edge_id e = get_prop (get_prop e ''node'') ''id''"

section \<open>The component\<close>

text \<open>
  \<^verbatim>\<open>fetcher.data\<close> at its declared type \<^verbatim>\<open>ActionResponse\<close>: the \<^verbatim>\<open>action\<close> tag of the
  first two alternatives is the constructor, and \<^verbatim>\<open>'orders' in fetcher.data\<close> holds of the
  first alone.
\<close>

datatype ActionResponse =
    SearchActionResponse "json list" bool string string
  | UpdateActionResponse bool number string string
  | ErrorActionResponse string

datatype fetcher_state = Idle | Loading | Submitting

text \<open>
  What a render of \<^verbatim>\<open>BulkOrderEditor\<close> closes over: the two \<^verbatim>\<open>useState\<close> strings and
  the fetcher.
\<close>

record component =
  fromStatus :: string
  toStatus :: string
  fetcher_state :: fetcher_state
  fetcher_formData :: "form_data option"
  fetcher_data :: "ActionResponse option"

definition FINANCIAL_STATUS_OPTIONS :: "(string \<times> string) list" where
  "FINANCIAL_STATUS_OPTIONS =
     [(''Select status...'', []),
      (''Authorized'', ''authorized''),
      (''Paid'', ''paid''),
      (''Pending'', ''pending''),
      (''Partially Paid'', ''partially_paid''),
      (''Partially Refunded'', ''partially_refunded''),
      (''Refunded'', ''refunded''),
      (''Voided'', ''voided'')]"

definition isLoading :: "component \<Rightarrow> bool" where
  "isLoading c = (fetcher_state c = Loading \<or> fetcher_state c = Submitting)"

definition submitting_action :: "component \<Rightarrow> string \<Rightarrow> bool" where
  "submitting_action c name =
     (case fetcher_formData c of
        None \<Rightarrow> False
      | Some formData \<Rightarrow> formData_get formData ''actionType'' = Some (FString name))"

definition isSearching :: "component \<Rightarrow> bool" where
  "isSearching c = (isLoading c \<and> submitting_action c ''search'')"

definition isUpdating :: "component \<Rightarrow> bool" where
  "isUpdating c = (isLoading c \<and> submitting_action c ''update'')"

definition orders :: "component \<Rightarrow> json list" where
  "orders c =
     (case fetcher_data c of
        Some (SearchActionResponse os h f t) \<Rightarrow> os
      | _ \<Rightarrow> [])"

definition hasSearched :: "component \<Rightarrow> bool" where
  "hasSearched c =
     (case fetcher_data c of
        Some (SearchActionResponse os h f t) \<Rightarrow> True
      | _ \<Rightarrow> False)"

definition hasUpdated :: "component \<Rightarrow> bool" where
  "hasUpdated c =
     (case fetcher_data c of
        Some (UpdateActionResponse success n f t) \<Rightarrow> success
      | _ \<Rightarrow> False)"

text \<open>\<^verbatim>\<open>n.toString()\<close> of a length: its decimal digits.\<close>

fun Number_toString :: "nat \<Rightarrow> string" where
  "Number_toString n =
     (if n < 10 then [char_of (48 + n)]
      else Number_toString (n div 10) @ [char_of (48 + n mod 10)])"

declare Number_toString.simps [simp del]

text \<open>
  A handler either shows a toast (the message, and the \<^verbatim>\<open>isError\<close> option) or submits
  a form with the fetcher.
\<close>

datatype effect = ToastShow string bool | FetcherSubmit form_data

definition handleSearch :: "component \<Rightarrow> effect" where
  "handleSearch c =
     (if fromStatus c = [] then
        ToastShow ''Please select a financial status to search for'' True
      else
        FetcherSubmit [(''actionType'', FString ''search''),
                       (''fromStatus'', FString (fromStatus c)),
                       (''toStatus'', FString (toStatus c))])"

definition handleBulkUpdate :: "component \<Rightarrow> effect" where
  "handleBulkUpdate c =
     (if toStatus c = [] then
        ToastShow ''Please select a status to update to'' True
      else if length (orders c) = 0 then
        ToastShow ''No orders found to update'' True
      else
        FetcherSubmit [(''actionType'', FString ''update''),
                       (''fromStatus'', FString (fromStatus c)),
                       (''toStatus'', FString (toStatus c)),
                       (''orderCount'', FString (Number_toString (length (orders c))))])"

text \<open>The update button is in the tree only under \<^verbatim>\<open>hasSearched && orders.length > 0\<close>.\<close>

definition update_button_rendered :: "component \<Rightarrow> bool" where
  "update_button_rendered c = (hasSearched c \<and> length (orders c) > 0)"

section \<open>parseInt on the strings the route meets\<close>

lemmas parseInt_defs =
  parseInt_def is_white_def radix_digit_def digit_value_def digits_value_def
  signed_number_def round_to_double_def

lemma parseInt_null: "parseInt ''null'' = NaN"
  by (simp add: parseInt_defs)


lemma parseInt_3: "parseInt ''3'' = Finite 3"
  by (simp add: parseInt_defs)

lemma parseInt_0: "parseInt ''0'' = Finite 0"
  by (simp add: parseInt_defs)

lemma parseInt_1: "parseInt ''1'' = Finite 1"
  by (simp add: parseInt_defs)

lemma round_to_double_exact: "n < 2 ^ 53 \<Longrightarrow> round_to_double n = Some n"
  by (simp add: round_to_double_def)

lemma signed_number_exact:
  "n < 2 ^ 53 \<Longrightarrow> signed_number neg n = Finite (if neg then - int n else int n)"
  by (simp add: signed_number_def round_to_double_exact)

text \<open>From \<open>2 ^ 1024\<close> on, the Number is infinity.\<close>

lemma bit_length_bounds: "0 < n \<Longrightarrow> 2 ^ (bit_length n - 1) \<le> n \<and> n < 2 ^ bit_length n"
proof (induction n rule: bit_length.induct)
  case (1 n)
  show ?case
  proof (cases "n div 2 = 0")
    case True
    with 1(2) have "n = 1" by (auto simp: div_eq_0_iff)
    then show ?thesis by (simp add: bit_length.simps)
  next
    case False
    then have pos: "0 < n div 2" by simp
    from 1(1)[OF _ pos] 1(2)
    have ih: "2 ^ (bit_length (n div 2) - 1) \<le> n div 2" "n div 2 < 2 ^ bit_length (n div 2)"
      by simp_all
    have bl: "bit_length n = Suc (bit_length (n div 2))"
      using 1(2) by (simp add: bit_length.simps[of n])
    have "0 < bit_length (n div 2)"
      using pos by (simp add: bit_length.simps[of "n div 2"])
    then obtain m where m: "bit_length (n div 2) = Suc m" by (cases "bit_length (n div 2)") auto
    from ih(1) m have "2 * 2 ^ m \<le> n" by simp
    moreover from ih(2) have "n < 2 * 2 ^ bit_length (n div 2)" by simp
    ultimately show ?thesis by (simp add: bl m)
  qed
qed

lemma shifted_significand_large:
  assumes "2 ^ (K + 53) \<le> n"
  shows "2 ^ (K + 53) \<le> (n div 2 ^ (bit_length n - 53)) * 2 ^ (bit_length n - 53)"
proof -
  let ?e = "bit_length n - 53"
  have pos: "0 < n" using assms by (rule less_le_trans[rotated]) simp
  from bit_length_bounds[OF pos]
  have lo: "2 ^ (bit_length n - 1) \<le> n" and hi: "n < 2 ^ bit_length n"
    by simp_all
  from assms hi have "(2::nat) ^ (K + 53) < 2 ^ bit_length n" by (rule le_less_trans)
  then have bl: "K + 53 < bit_length n" by (simp only: power_strict_increasing_iff one_less_numeral_iff semiring_norm)
  then have e: "bit_length n - 1 = ?e + 52" and eK: "K + 1 \<le> ?e" by simp_all
  have "2 ^ 52 * 2 ^ ?e \<le> n" using lo by (simp only: e power_add mult.commute)
  then have q: "2 ^ 52 \<le> n div 2 ^ ?e"
    by (simp only: less_eq_div_iff_mult_less_eq zero_less_power zero_less_numeral)
  have "(2::nat) ^ (K + 53) = 2 ^ 52 * 2 ^ (K + 1)"
    by (simp only: power_add[symmetric]) simp
  also have "\<dots> \<le> 2 ^ 52 * 2 ^ ?e"
    using eK by (intro mult_le_mono2 power_increasing) simp_all
  also have "\<dots> \<le> (n div 2 ^ ?e) * 2 ^ ?e" using q by (rule mult_le_mono1)
  finally show ?thesis .
qed

lemma round_to_double_overflow:
  assumes "2 ^ 1024 \<le> n"
  shows "round_to_double n = None"
proof -
  let ?e = "bit_length n - 53"
  let ?q = "n div 2 ^ ?e"
  have "(2::nat) ^ (971 + 53) \<le> n" using assms by simp
  from shifted_significand_large[OF this]
  have v: "2 ^ 1024 \<le> ?q * 2 ^ ?e" by simp
  then have v': "2 ^ 1024 \<le> (?q + 1) * 2 ^ ?e"
    by (simp add: add_mult_distrib trans_le_add1)
  have big: "\<not> n < 2 ^ 53"
    using assms by simp
  show ?thesis
    unfolding round_to_double_def Let_def using big v v'
    by (simp add: not_less)
qed

lemma signed_number_overflow:
  "2 ^ 1024 \<le> n \<Longrightarrow> signed_number neg n = (if neg then NegInfinity else Infinity)"
  by (simp add: signed_number_def round_to_double_overflow)

lemma decimal_digit_char_of: "d < 10 \<Longrightarrow> decimal_digit (char_of (48 + (d::nat)))"
  by (simp add: decimal_digit_def)

lemma digit_value_char_of: "d < 10 \<Longrightarrow> digit_value (char_of (48 + d)) = Some (d::nat)"
  unfolding digit_value_def by (simp add: Let_def)

lemma decimal_digit_radix: "decimal_digit c \<Longrightarrow> radix_digit 10 c"
  by (auto simp: decimal_digit_def radix_digit_def digit_value_def Let_def)

lemma radix_decimal_digit: "radix_digit 10 c \<Longrightarrow> decimal_digit c"
  by (auto simp: decimal_digit_def radix_digit_def digit_value_def Let_def split: if_splits)

lemma decimal_digit_not_white: "decimal_digit c \<Longrightarrow> \<not> is_white c"
  by (auto simp: decimal_digit_def is_white_def)

lemma decimal_digit_neq:
  "decimal_digit c \<Longrightarrow>
     c \<noteq> CHR ''-'' \<and> c \<noteq> CHR ''+'' \<and> c \<noteq> CHR ''x'' \<and> c \<noteq> CHR ''X''"
  by (auto simp: decimal_digit_def)

lemma char_eq_code: "c = d \<longleftrightarrow> (of_char c :: nat) = of_char d"
  by simp

lemma decimal_digit_literal: "decimal_digit c \<longleftrightarrow> c \<in> set ''0123456789''"
proof -
  have "48 \<le> n \<and> n \<le> 57 \<longleftrightarrow>
      n = 48 \<or> n = 49 \<or> n = 50 \<or> n = 51 \<or> n = 52 \<or> n = 53 \<or> n = 54 \<or> n = 55 \<or> n = 56 \<or> n = 57"
    for n :: nat by arith
  then show ?thesis
    unfolding decimal_digit_def by (simp add: char_eq_code[of c])
qed

lemma is_white_literal:
  "is_white c \<longleftrightarrow>
     c \<in> {CHR 0x09, CHR 0x0A, CHR 0x0B, CHR 0x0C, CHR 0x0D, CHR 0x20, CHR 0xA0}"
  unfolding is_white_def by (simp add: char_eq_code[of c])


lemma dropWhile_white_prefix:
  assumes "\<And>c. c \<in> set ws \<Longrightarrow> is_white c" and "S = [] \<or> \<not> is_white (hd S)"
  shows "dropWhile is_white (ws @ S) = S"
proof -
  have "dropWhile is_white (ws @ S) = dropWhile is_white S"
    using assms(1) by (simp add: dropWhile_append2)
  also have "\<dots> = S" using assms(2) by (cases S) auto
  finally show ?thesis .
qed

lemma takeWhile_digits_prefix:
  assumes "\<And>c. c \<in> set D \<Longrightarrow> decimal_digit c" and "rest = [] \<or> \<not> decimal_digit (hd rest)"
  shows "takeWhile (radix_digit 10) (D @ rest) = D"
proof -
  have "takeWhile (radix_digit 10) rest = []"
    using assms(2) radix_decimal_digit by (cases rest) auto
  moreover have "takeWhile (radix_digit 10) (D @ rest) = D @ takeWhile (radix_digit 10) rest"
    using assms(1) decimal_digit_radix by (simp add: takeWhile_append2)
  ultimately show ?thesis by simp
qed

lemma no_hex_prefix:
  assumes "D \<noteq> []" and "\<And>c. c \<in> set D \<Longrightarrow> decimal_digit c"
    and "\<not> (D = ''0'' \<and> rest \<noteq> [] \<and> (hd rest = CHR ''x'' \<or> hd rest = CHR ''X''))"
  shows "take 2 (D @ rest) \<noteq> ''0x'' \<and> take 2 (D @ rest) \<noteq> ''0X''"
proof -
  from assms(1) obtain d D' where D: "D = d # D'" by (cases D) auto
  show ?thesis
  proof (cases D')
    case Nil
    with assms(3) D show ?thesis
      by (cases rest) (auto simp: numeral_2_eq_2)
  next
    case (Cons d' D'')
    then have "decimal_digit d'" using assms(2) D by simp
    then show ?thesis
      using decimal_digit_neq[of d'] D Cons by (simp add: numeral_2_eq_2)
  qed
qed

lemma parseInt_unsigned:
  assumes "D \<noteq> []" and "\<And>c. c \<in> set D \<Longrightarrow> decimal_digit c"
    and "rest = [] \<or> \<not> decimal_digit (hd rest)"
    and "\<not> (D = ''0'' \<and> rest \<noteq> [] \<and> (hd rest = CHR ''x'' \<or> hd rest = CHR ''X''))"
    and "\<And>c. c \<in> set ws \<Longrightarrow> is_white c"
  shows "parseInt (ws @ D @ rest) = signed_number False (digits_value 10 D)"
    and "parseInt (ws @ ''+'' @ D @ rest) = signed_number False (digits_value 10 D)"
    and "parseInt (ws @ ''-'' @ D @ rest) = signed_number True (digits_value 10 D)"
proof -
  from assms(1) obtain d D' where D: "D = d # D'" by (cases D) auto
  have d: "decimal_digit d" using assms(2) D by simp
  have hex: "take 2 (D @ rest) \<noteq> ''0x''" "take 2 (D @ rest) \<noteq> ''0X''"
    using no_hex_prefix[OF assms(1,2,4)] by simp_all
  have Z: "takeWhile (radix_digit 10) (D @ rest) = D"
    by (rule takeWhile_digits_prefix[OF assms(2,3)])
  have w0: "dropWhile is_white (ws @ D @ rest) = D @ rest"
    using assms(5) decimal_digit_not_white[OF d] D by (intro dropWhile_white_prefix) auto
  have w1: "dropWhile is_white (ws @ ''+'' @ D @ rest) = ''+'' @ D @ rest"
    using assms(5) by (intro dropWhile_white_prefix) (auto simp: is_white_def)
  have w2: "dropWhile is_white (ws @ ''-'' @ D @ rest) = ''-'' @ D @ rest"
    using assms(5) by (intro dropWhile_white_prefix) (auto simp: is_white_def)
  have s0: "take 1 (D @ rest) \<noteq> ''-''" "take 1 (D @ rest) \<noteq> ''+''"
    using decimal_digit_neq[OF d] D by simp_all
  show "parseInt (ws @ D @ rest) = signed_number False (digits_value 10 D)"
    unfolding parseInt_def Let_def w0 using s0 hex assms(1) by (simp add: Z)
  show "parseInt (ws @ ''+'' @ D @ rest) = signed_number False (digits_value 10 D)"
    unfolding parseInt_def Let_def w1 using hex assms(1) by (simp add: Z)
  show "parseInt (ws @ ''-'' @ D @ rest) = signed_number True (digits_value 10 D)"
    unfolding parseInt_def Let_def w2 using hex assms(1) by (simp add: Z)
qed


subsection \<open>parseInt reads back the decimal digits of a length\<close>

lemma Number_toString_nonempty: "Number_toString n \<noteq> []"
  by (subst Number_toString.simps) simp

lemma Number_toString_digits: "c \<in> set (Number_toString n) \<Longrightarrow> decimal_digit c"
proof (induction n arbitrary: c rule: Number_toString.induct)
  case (1 n)
  show ?case
  proof (cases "n < 10")
    case True
    with 1(2) show ?thesis
      by (auto simp: Number_toString.simps[of n] decimal_digit_char_of)
  next
    case False
    have "decimal_digit (char_of (48 + n mod 10))"
      by (rule decimal_digit_char_of) simp
    with False 1 show ?thesis
      by (auto simp: Number_toString.simps[of n])
  qed
qed

lemma Number_toString_zero: "Number_toString n = ''0'' \<Longrightarrow> n = 0"
proof (cases "n < 10")
  case True
  assume "Number_toString n = ''0''"
  with True have "char_of (48 + n) = CHR ''0''"
    by (simp add: Number_toString.simps[of n])
  then have "(of_char (char_of (48 + n)) :: nat) = of_char CHR ''0''" by simp
  with True show ?thesis by simp
next
  case False
  assume "Number_toString n = ''0''"
  with False Number_toString_nonempty[of "n div 10"] show ?thesis
    by (simp add: Number_toString.simps[of n])
qed

lemma digits_value_snoc:
  "digits_value R (Z @ [c]) = digits_value R Z * R + the (digit_value c)"
  by (simp add: digits_value_def)

lemma digits_value_Number_toString: "digits_value 10 (Number_toString n) = n"
proof (induction n rule: Number_toString.induct)
  case (1 n)
  show ?case
  proof (cases "n < 10")
    case True
    then show ?thesis
      by (simp add: Number_toString.simps[of n] digits_value_def digit_value_char_of)
  next
    case False
    have "digit_value (char_of (48 + n mod 10)) = Some (n mod 10)"
      by (rule digit_value_char_of) simp
    with False 1 show ?thesis
      by (simp add: Number_toString.simps[of n] digits_value_snoc)
  qed
qed

text \<open>
  White space, a sign, the decimal digits of a number below \<open>2 ^ 53\<close> and a rest that
  does not go on with a digit (nor, after a lone \<^verbatim>\<open>0\<close>, with \<^verbatim>\<open>x\<close>): parseInt reads
  the number.
\<close>

lemma parseInt_numeral:
  assumes "n < 2 ^ 53"
    and "set ws \<subseteq> {CHR 0x09, CHR 0x0A, CHR 0x0B, CHR 0x0C, CHR 0x0D, CHR 0x20, CHR 0xA0}"
    and "rest = [] \<or> hd rest \<notin> set ''0123456789''"
    and "n = 0 \<longrightarrow> rest = [] \<or> hd rest \<notin> {CHR ''x'', CHR ''X''}"
  shows "parseInt (ws @ Number_toString n @ rest) = Finite (int n)"
    and "parseInt (ws @ ''+'' @ Number_toString n @ rest) = Finite (int n)"
    and "parseInt (ws @ ''-'' @ Number_toString n @ rest) = Finite (- int n)"
proof -
  let ?D = "Number_toString n"
  have ws: "\<And>c. c \<in> set ws \<Longrightarrow> is_white c"
    using assms(2) by (auto simp: is_white_literal)
  have rest: "rest = [] \<or> \<not> decimal_digit (hd rest)"
    using assms(3) by (simp add: decimal_digit_literal)
  have nohex: "\<not> (?D = ''0'' \<and> rest \<noteq> [] \<and> (hd rest = CHR ''x'' \<or> hd rest = CHR ''X''))"
    using assms(4) Number_toString_zero[of n] by auto
  note core = parseInt_unsigned[OF Number_toString_nonempty Number_toString_digits rest nohex ws]
  show "parseInt (ws @ ?D @ rest) = Finite (int n)"
    using core(1) assms(1) by (simp add: digits_value_Number_toString signed_number_exact)
  show "parseInt (ws @ ''+'' @ ?D @ rest) = Finite (int n)"
    using core(2) assms(1) by (simp add: digits_value_Number_toString signed_number_exact)
  show "parseInt (ws @ ''-'' @ ?D @ rest) = Finite (- int n)"
    using core(3) assms(1) by (simp add: digits_value_Number_toString signed_number_exact)
qed

lemma parseInt_Number_toString: "n < 2 ^ 53 \<Longrightarrow> parseInt (Number_toString n) = Finite (int n)"
  using parseInt_numeral(1)[of n "[]" "[]"] by simp

text \<open>The decimal digits of a number from \<open>2 ^ 1024\<close> on are read as infinity.\<close>

lemma parseInt_huge: "2 ^ 1024 \<le> n \<Longrightarrow> parseInt (Number_toString n) = Infinity"
  using parseInt_unsigned(1)[of "Number_toString n" "[]" "[]", OF Number_toString_nonempty
      Number_toString_digits]
  by (simp add: digits_value_Number_toString signed_number_overflow)


section \<open>The two branches of the action\<close>

lemma action_update:
  "formData_get formData ''actionType'' = Some (FString ''update'') \<Longrightarrow>
   action (Inr admin) (Inr formData) =
     (Inr (ReturnUpdate True
            (num_or (parseInt (to_string (formData_get formData ''orderCount''))) (Finite 0))
            (formData_get formData ''fromStatus'')
            (formData_get formData ''toStatus'')),
      [])"
  by (simp add: action_def action_body_def)

lemma action_search:
  assumes "formData_get formData ''actionType'' = Some (FString ''search'')"
    and "admin (search_call (formData_get formData ''fromStatus'')) = Inr responseJson"
    and "\<not> nullish responseJson"
  shows "action (Inr admin) (Inr formData) =
     (Inr (ReturnSearch
            (js_or (opt_chain (opt_chain (get_prop responseJson ''data'') ''orders'') ''edges'')
               (JArr []))
            (js_or (opt_chain (opt_chain (opt_chain (get_prop responseJson ''data'') ''orders'')
                                 ''pageInfo'') ''hasNextPage'')
               (JBool False))
            (formData_get formData ''fromStatus'')
            (formData_get formData ''toStatus'')),
      [search_call (formData_get formData ''fromStatus'')])"
  using assms by (simp add: action_def action_body_def member_def Let_def)

text \<open>A null body makes \<^verbatim>\<open>responseJson.data\<close> throw, after the call was made.\<close>

lemma action_search_null_body:
  assumes "formData_get formData ''actionType'' = Some (FString ''search'')"
    and "admin (search_call (formData_get formData ''fromStatus'')) = Inr JNull"
  shows "action (Inr admin) (Inr formData) =
           (Inl TypeError, [search_call (formData_get formData ''fromStatus'')])"
  using assms by (simp add: action_def action_body_def member_def nullish_def Let_def)

lemma action_search_calls:
  assumes "formData_get formData ''actionType'' = Some (FString ''search'')"
  shows "snd (action (Inr admin) (Inr formData)) =
           [search_call (formData_get formData ''fromStatus'')]"
  using assms
  by (simp add: action_def action_body_def Let_def split: sum.splits)

lemma orders_page_edges:
  "opt_chain (opt_chain (get_prop (orders_page es h) ''data'') ''orders'') ''edges'' = JArr es"
  by (simp add: orders_page_def opt_chain_def nullish_def)

lemma orders_page_hasNextPage:
  "opt_chain (opt_chain (opt_chain (get_prop (orders_page es h) ''data'') ''orders'')
      ''pageInfo'') ''hasNextPage'' = JBool h"
  by (simp add: orders_page_def opt_chain_def nullish_def)

lemma orders_page_not_nullish: "\<not> nullish (orders_page es h)"
  by (simp add: orders_page_def nullish_def)

lemma action_search_page:
  assumes "formData_get formData ''actionType'' = Some (FString ''search'')"
    and "admin (search_call (formData_get formData ''fromStatus'')) = Inr (orders_page es h)"
  shows "action (Inr admin) (Inr formData) =
     (Inr (ReturnSearch (JArr es) (JBool h)
            (formData_get formData ''fromStatus'')
            (formData_get formData ''toStatus'')),
      [search_call (formData_get formData ''fromStatus'')])"
  using action_search[of formData admin "orders_page es h"] assms
  by (simp add: orders_page_not_nullish orders_page_edges orders_page_hasNextPage js_or_def)

lemma store_remote_search_call:
  "store_remote limit store (search_call f) =
     Inr (orders_page (take (min limit 250) (store (search_query f)))
            (min limit 250 < length (store (search_query f))))"
  by (simp add: store_remote_def search_call_def Let_def)

lemmas eval_defs =
  action_def action_body_def formData_get_def store_remote_def search_call_def search_query_def
  member_def opt_chain_def nullish_def orders_page_def js_or_def Let_def

section \<open>The placeholder update\<close>






text \<open>
  The form \<^verbatim>\<open>handleBulkUpdate\<close> submits comes back with the number of orders on display
  as the count: parseInt reads back what \<^verbatim>\<open>orders.length.toString()\<close> wrote. (The length
  of an array is below \<open>2 ^ 32\<close>.)
\<close>

lemma handleBulkUpdate_submits:
  "handleBulkUpdate c = FetcherSubmit formData \<longleftrightarrow>
     toStatus c \<noteq> [] \<and> orders c \<noteq> [] \<and>
     formData = [(''actionType'', FString ''update''),
                 (''fromStatus'', FString (fromStatus c)),
                 (''toStatus'', FString (toStatus c)),
                 (''orderCount'', FString (Number_toString (length (orders c))))]"
  by (auto simp: handleBulkUpdate_def)

lemma handleBulkUpdate_round_trip:
  assumes "handleBulkUpdate c = FetcherSubmit formData" and "length (orders c) < 2 ^ 53"
  shows "action (Inr admin) (Inr formData) =
           (Inr (ReturnUpdate True (Finite (int (length (orders c))))
                  (Some (FString (fromStatus c))) (Some (FString (toStatus c)))),
            [])"
proof -
  from assms(1) have fd: "formData =
      [(''actionType'', FString ''update''),
       (''fromStatus'', FString (fromStatus c)),
       (''toStatus'', FString (toStatus c)),
       (''orderCount'', FString (Number_toString (length (orders c))))]"
    and nonempty: "orders c \<noteq> []"
    by (simp_all add: handleBulkUpdate_submits)
  have "formData_get formData ''actionType'' = Some (FString ''update'')"
    by (simp add: fd formData_get_def)
  from action_update[OF this, of admin] nonempty show ?thesis
    by (simp add: fd formData_get_def parseInt_Number_toString[OF assms(2)])
qed

section \<open>What an update does not do\<close>

text \<open>
  C6 as stated fails. A target all of whose mutation attempts are answered with a
  rate-limit error would be tried the configured number of times and recorded as failed.
  Here the admin client answers every call with such an error, and an update of three
  orders still makes no attempt at all and reports success.
\<close>

theorem update_throttled_counterexample:
  "action (Inr (\<lambda>call. Inl (GraphqlThrew ''Throttled'')))
      (Inr [(''actionType'', FString ''update''), (''toStatus'', FString ''paid''),
            (''orderCount'', FString ''3'')]) =
     (Inr (ReturnUpdate True (Finite 3) None (Some (FString ''paid''))), [])"
  by (simp add: eval_defs parseInt_3)

text \<open>
  C6, amended. An update makes no mutation attempt, so nothing is retried and nothing is
  recorded as failed: whatever the remote would answer, the action makes no call and
  returns the same response, with \<^verbatim>\<open>success: true\<close>.
\<close>

theorem update_ignores_remote:
  assumes "formData_get formData ''actionType'' = Some (FString ''update'')"
  shows "action (Inr admin) (Inr formData) = action (Inr admin') (Inr formData)
         \<and> snd (action (Inr admin) (Inr formData)) = []
         \<and> (\<exists>n f t. fst (action (Inr admin) (Inr formData)) = Inr (ReturnUpdate True n f t))"
  using action_update[OF assms, of admin] action_update[OF assms, of admin'] by simp

theorem update_ignores_remote_witness:
  "formData_get [(''actionType'', FString ''update''), (''orderCount'', FString ''3'')]
      ''actionType'' = Some (FString ''update'')
   \<and> action (Inr (\<lambda>call. Inl (GraphqlThrew ''Throttled'')))
        (Inr [(''actionType'', FString ''update''), (''orderCount'', FString ''3'')]) =
     action (Inr (\<lambda>call. Inr (orders_page [] False)))
        (Inr [(''actionType'', FString ''update''), (''orderCount'', FString ''3'')])"
proof -
  let ?fd = "[(''actionType'', FString ''update''), (''orderCount'', FString ''3'')]"
  have h: "formData_get ?fd ''actionType'' = Some (FString ''update'')"
    by (simp add: formData_get_def)
  from update_ignores_remote[OF h, of "\<lambda>call. Inl (GraphqlThrew ''Throttled'')"
      "\<lambda>call. Inr (orders_page [] False)"] h
  show ?thesis by blast
qed

text \<open>
  C5 as stated fails. An update attempted while the job is not in its searched phase would
  be rejected. The action keeps nothing between requests: an update POST that follows no
  search at all is answered with \<^verbatim>\<open>success: true\<close>. And the component does not hold an
  update back while a search is in flight: with the response of an earlier search still
  held, \<^verbatim>\<open>isSearching\<close> is true, \<^verbatim>\<open>handleBulkUpdate\<close> submits the update, and the action
  answers it with \<^verbatim>\<open>success: true\<close>.
\<close>

theorem update_without_search_counterexample:
  "action (Inr (\<lambda>call. Inr (orders_page [] False)))
      (Inr [(''actionType'', FString ''update''), (''fromStatus'', FString ''pending''),
            (''toStatus'', FString ''paid'')]) =
     (Inr (ReturnUpdate True (Finite 0) (Some (FString ''pending'')) (Some (FString ''paid''))), [])
   \<and> isSearching
        \<lparr>fromStatus = ''pending'', toStatus = ''paid'', fetcher_state = Submitting,
         fetcher_formData = Some [(''actionType'', FString ''search''),
                                  (''fromStatus'', FString ''pending''),
                                  (''toStatus'', FString ''paid'')],
         fetcher_data = Some (SearchActionResponse [edge ''1''] False ''pending'' ''paid'')\<rparr>
   \<and> handleBulkUpdate
        \<lparr>fromStatus = ''pending'', toStatus = ''paid'', fetcher_state = Submitting,
         fetcher_formData = Some [(''actionType'', FString ''search''),
                                  (''fromStatus'', FString ''pending''),
                                  (''toStatus'', FString ''paid'')],
         fetcher_data = Some (SearchActionResponse [edge ''1''] False ''pending'' ''paid'')\<rparr> =
       FetcherSubmit [(''actionType'', FString ''update''), (''fromStatus'', FString ''pending''),
                      (''toStatus'', FString ''paid''), (''orderCount'', FString ''1'')]
   \<and> action (Inr (\<lambda>call. Inr (orders_page [] False)))
        (Inr [(''actionType'', FString ''update''), (''fromStatus'', FString ''pending''),
              (''toStatus'', FString ''paid''), (''orderCount'', FString ''1'')]) =
       (Inr (ReturnUpdate True (Finite 1) (Some (FString ''pending'')) (Some (FString ''paid''))), [])"
  by (simp add: eval_defs parseInt_null parseInt_1 isSearching_def isLoading_def
      submitting_action_def handleBulkUpdate_def orders_def Number_toString.simps char_eq_code)

lemma not_hasSearched_orders: "\<not> hasSearched c \<Longrightarrow> orders c = []"
  by (auto simp: hasSearched_def orders_def split: option.splits ActionResponse.splits)

lemma orders_hasSearched: "orders c \<noteq> [] \<Longrightarrow> hasSearched c"
  using not_hasSearched_orders by blast

text \<open>
  C5, amended. The server action keeps no job phase and accepts every update POST: it
  returns \<^verbatim>\<open>success: true\<close> and makes no remote call, whether or not a search came before.
  In the component an update is gated by what the fetcher holds, not by a phase: the
  update button is rendered exactly when a search response with at least one order is
  held, and \<^verbatim>\<open>handleBulkUpdate\<close> submits exactly when, besides, a status to update to is
  chosen, whatever the state of the fetcher, so also while a search or an update is in
  flight. While no search response is held (before any search, after an update or an
  error) the button is not rendered and \<^verbatim>\<open>handleBulkUpdate\<close> shows an error toast and
  submits nothing.
\<close>

theorem update_gated_by_held_orders:
  "(formData_get formData ''actionType'' = Some (FString ''update'') \<longrightarrow>
      (\<exists>updatedCount.
         action (Inr admin) (Inr formData) =
           (Inr (ReturnUpdate True updatedCount
                  (formData_get formData ''fromStatus'')
                  (formData_get formData ''toStatus'')),
            [])))
   \<and> (update_button_rendered c \<longleftrightarrow> hasSearched c \<and> orders c \<noteq> [])
   \<and> ((\<exists>submitted. handleBulkUpdate c = FetcherSubmit submitted) \<longleftrightarrow>
        toStatus c \<noteq> [] \<and> hasSearched c \<and> orders c \<noteq> [])
   \<and> handleBulkUpdate (c\<lparr>fetcher_state := s, fetcher_formData := inflight\<rparr>) =
        handleBulkUpdate c
   \<and> update_button_rendered (c\<lparr>fetcher_state := s, fetcher_formData := inflight\<rparr>) =
        update_button_rendered c
   \<and> (\<not> hasSearched c \<longrightarrow>
        \<not> update_button_rendered c
        \<and> (handleBulkUpdate c = ToastShow ''Please select a status to update to'' True
           \<or> handleBulkUpdate c = ToastShow ''No orders found to update'' True))"
proof (intro conjI impI)
  assume "formData_get formData ''actionType'' = Some (FString ''update'')"
  from action_update[OF this, of admin]
  show "\<exists>updatedCount. action (Inr admin) (Inr formData) =
      (Inr (ReturnUpdate True updatedCount (formData_get formData ''fromStatus'')
             (formData_get formData ''toStatus'')), [])"
    by blast
next
  show "update_button_rendered c \<longleftrightarrow> hasSearched c \<and> orders c \<noteq> []"
    by (simp add: update_button_rendered_def)
next
  show "(\<exists>submitted. handleBulkUpdate c = FetcherSubmit submitted) \<longleftrightarrow>
      toStatus c \<noteq> [] \<and> hasSearched c \<and> orders c \<noteq> []"
    using orders_hasSearched[of c] by (auto simp: handleBulkUpdate_submits)
next
  show "handleBulkUpdate (c\<lparr>fetcher_state := s, fetcher_formData := inflight\<rparr>) =
      handleBulkUpdate c"
    by (simp add: handleBulkUpdate_def orders_def)
next
  show "update_button_rendered (c\<lparr>fetcher_state := s, fetcher_formData := inflight\<rparr>) =
      update_button_rendered c"
    by (simp add: update_button_rendered_def hasSearched_def orders_def)
next
  assume "\<not> hasSearched c"
  then show "\<not> update_button_rendered c" by (simp add: update_button_rendered_def)
next
  assume "\<not> hasSearched c"
  from not_hasSearched_orders[OF this]
  show "handleBulkUpdate c = ToastShow ''Please select a status to update to'' True
      \<or> handleBulkUpdate c = ToastShow ''No orders found to update'' True"
    by (simp add: handleBulkUpdate_def)
qed

theorem update_gated_by_held_orders_witness:
  "formData_get [(''actionType'', FString ''update'')] ''actionType'' = Some (FString ''update'')
   \<and> action (Inr (\<lambda>call. Inr (orders_page [] False))) (Inr [(''actionType'', FString ''update'')]) =
       (Inr (ReturnUpdate True (Finite 0) None None), [])
   \<and> \<not> hasSearched \<lparr>fromStatus = ''pending'', toStatus = ''paid'', fetcher_state = Idle,
        fetcher_formData = None, fetcher_data = None\<rparr>
   \<and> handleBulkUpdate \<lparr>fromStatus = ''pending'', toStatus = ''paid'', fetcher_state = Idle,
        fetcher_formData = None, fetcher_data = None\<rparr> =
       ToastShow ''No orders found to update'' True
   \<and> isSearching
        \<lparr>fromStatus = ''pending'', toStatus = ''paid'', fetcher_state = Submitting,
         fetcher_formData = Some [(''actionType'', FString ''search'')],
         fetcher_data = Some (SearchActionResponse [edge ''1''] False ''pending'' ''paid'')\<rparr>
   \<and> update_button_rendered
        \<lparr>fromStatus = ''pending'', toStatus = ''paid'', fetcher_state = Submitting,
         fetcher_formData = Some [(''actionType'', FString ''search'')],
         fetcher_data = Some (SearchActionResponse [edge ''1''] False ''pending'' ''paid'')\<rparr>
   \<and> (\<exists>submitted. handleBulkUpdate
        \<lparr>fromStatus = ''pending'', toStatus = ''paid'', fetcher_state = Submitting,
         fetcher_formData = Some [(''actionType'', FString ''search'')],
         fetcher_data = Some (SearchActionResponse [edge ''1''] False ''pending'' ''paid'')\<rparr> =
       FetcherSubmit submitted)"
proof -
  let ?fd = "[(''actionType'', FString ''update'')]"
  let ?admin = "\<lambda>call. Inr (orders_page [] False) :: exn + json"
  let ?idle = "\<lparr>fromStatus = ''pending'', toStatus = ''paid'', fetcher_state = Idle,
        fetcher_formData = None, fetcher_data = None\<rparr>"
  let ?busy = "\<lparr>fromStatus = ''pending'', toStatus = ''paid'', fetcher_state = Submitting,
         fetcher_formData = Some [(''actionType'', FString ''search'')],
         fetcher_data = Some (SearchActionResponse [edge ''1''] False ''pending'' ''paid'')\<rparr>"
  have u: "formData_get ?fd ''actionType'' = Some (FString ''update'')"
    by (simp add: formData_get_def)
  have idle: "\<not> hasSearched ?idle" by (simp add: hasSearched_def)
  have busy: "isSearching ?busy" "hasSearched ?busy" "orders ?busy \<noteq> []" "toStatus ?busy \<noteq> []"
    by (simp_all add: isSearching_def isLoading_def submitting_action_def formData_get_def
        hasSearched_def orders_def)
  note server = update_gated_by_held_orders[where formData = ?fd and admin = ?admin and c = ?idle
      and s = Idle and inflight = None, THEN conjunct1,
      rule_format, OF u]
  have accepted: "action (Inr ?admin) (Inr ?fd) = (Inr (ReturnUpdate True (Finite 0) None None), [])"
    using server by (auto simp: action_def action_body_def formData_get_def parseInt_null)
  note idle_facts = update_gated_by_held_orders[where formData = ?fd and admin = ?admin and c = ?idle
      and s = Idle and inflight = None,
      THEN conjunct2, THEN conjunct2, THEN conjunct2, THEN conjunct2, THEN conjunct2,
      rule_format, OF idle]
  have toast: "handleBulkUpdate ?idle = ToastShow ''No orders found to update'' True"
  proof -
    have "handleBulkUpdate ?idle \<noteq> ToastShow ''Please select a status to update to'' True"
      by (simp add: handleBulkUpdate_def)
    with idle_facts show ?thesis by blast
  qed
  note busy_facts = update_gated_by_held_orders[where formData = ?fd and admin = ?admin and c = ?busy
      and s = Idle and inflight = None]
  have rendered: "update_button_rendered ?busy"
    using busy_facts[THEN conjunct2, THEN conjunct1] busy by blast
  have submits: "\<exists>submitted. handleBulkUpdate ?busy = FetcherSubmit submitted"
    using busy_facts[THEN conjunct2, THEN conjunct2, THEN conjunct1] busy by blast
  show ?thesis
    using u accepted idle toast busy(1) rendered submits by blast
qed

text \<open>
  C9 as stated fails. An update over no target would be signalled as a caller error, apart
  from a successful outcome of zero results. The action answers an update that counts no
  order with \<^verbatim>\<open>success: true\<close> and \<^verbatim>\<open>updatedCount: 0\<close>.
\<close>

theorem update_zero_orders_counterexample:
  "action (Inr (\<lambda>call. Inl (GraphqlThrew ''unused'')))
      (Inr [(''actionType'', FString ''update''), (''fromStatus'', FString ''pending''),
            (''toStatus'', FString ''paid''), (''orderCount'', FString ''0'')]) =
     (Inr (ReturnUpdate True (Finite 0) (Some (FString ''pending'')) (Some (FString ''paid''))), [])"
  by (simp add: eval_defs parseInt_0)

text \<open>
  C9, amended. The caller error is signalled in the component: with no order on display
  \<^verbatim>\<open>handleBulkUpdate\<close> submits nothing and shows an error toast, which is
  \<^verbatim>\<open>No orders found to update\<close> when a status to update to is chosen; so every update the
  component submits counts at least one order. The action does not tell an empty update
  apart: every update POST whose \<^verbatim>\<open>orderCount\<close> is \<^verbatim>\<open>0\<close> or absent, which only another
  client sends, is answered with \<^verbatim>\<open>success: true\<close> and \<^verbatim>\<open>updatedCount: 0\<close>, with no
  remote call.
\<close>

theorem empty_update_rejected_by_handler_only:
  "(orders c = [] \<longrightarrow>
      (\<forall>submitted. handleBulkUpdate c \<noteq> FetcherSubmit submitted)
      \<and> (toStatus c \<noteq> [] \<longrightarrow> handleBulkUpdate c = ToastShow ''No orders found to update'' True)
      \<and> (toStatus c = [] \<longrightarrow>
            handleBulkUpdate c = ToastShow ''Please select a status to update to'' True))
   \<and> (\<forall>submitted. handleBulkUpdate c = FetcherSubmit submitted \<longrightarrow>
        orders c \<noteq> []
        \<and> formData_get submitted ''orderCount'' =
            Some (FString (Number_toString (length (orders c)))))
   \<and> (formData_get formData ''actionType'' = Some (FString ''update'')
        \<and> (formData_get formData ''orderCount'' = None
           \<or> formData_get formData ''orderCount'' = Some (FString ''0'')) \<longrightarrow>
        action (Inr admin) (Inr formData) =
          (Inr (ReturnUpdate True (Finite 0)
                 (formData_get formData ''fromStatus'')
                 (formData_get formData ''toStatus'')),
           []))"
proof (intro conjI impI allI)
  fix submitted assume "orders c = []"
  then show "handleBulkUpdate c \<noteq> FetcherSubmit submitted"
    by (simp add: handleBulkUpdate_def)
next
  assume "orders c = []" "toStatus c \<noteq> []"
  then show "handleBulkUpdate c = ToastShow ''No orders found to update'' True"
    by (simp add: handleBulkUpdate_def)
next
  assume "orders c = []" "toStatus c = []"
  then show "handleBulkUpdate c = ToastShow ''Please select a status to update to'' True"
    by (simp add: handleBulkUpdate_def)
next
  fix submitted assume "handleBulkUpdate c = FetcherSubmit submitted"
  then show "orders c \<noteq> []" by (simp add: handleBulkUpdate_submits)
next
  fix submitted assume "handleBulkUpdate c = FetcherSubmit submitted"
  then show "formData_get submitted ''orderCount'' =
      Some (FString (Number_toString (length (orders c))))"
    by (simp add: handleBulkUpdate_submits formData_get_def)
next
  assume a: "formData_get formData ''actionType'' = Some (FString ''update'')
      \<and> (formData_get formData ''orderCount'' = None
         \<or> formData_get formData ''orderCount'' = Some (FString ''0''))"
  then have "num_or (parseInt (to_string (formData_get formData ''orderCount''))) (Finite 0) =
      Finite 0"
    by (auto simp: parseInt_null parseInt_0)
  with action_update[of formData admin] a
  show "action (Inr admin) (Inr formData) =
      (Inr (ReturnUpdate True (Finite 0) (formData_get formData ''fromStatus'')
             (formData_get formData ''toStatus'')), [])"
    by simp
qed

theorem empty_update_rejected_by_handler_only_witness:
  "orders \<lparr>fromStatus = ''pending'', toStatus = ''paid'', fetcher_state = Idle,
        fetcher_formData = None,
        fetcher_data = Some (SearchActionResponse [] False ''pending'' ''paid'')\<rparr> = []
   \<and> handleBulkUpdate \<lparr>fromStatus = ''pending'', toStatus = ''paid'', fetcher_state = Idle,
        fetcher_formData = None,
        fetcher_data = Some (SearchActionResponse [] False ''pending'' ''paid'')\<rparr> =
       ToastShow ''No orders found to update'' True
   \<and> handleBulkUpdate \<lparr>fromStatus = ''pending'', toStatus = [], fetcher_state = Idle,
        fetcher_formData = None,
        fetcher_data = Some (SearchActionResponse [] False ''pending'' [])\<rparr> =
       ToastShow ''Please select a status to update to'' True
   \<and> handleBulkUpdate \<lparr>fromStatus = ''pending'', toStatus = ''paid'', fetcher_state = Idle,
        fetcher_formData = None,
        fetcher_data = Some (SearchActionResponse [edge ''1'', edge ''2''] False ''pending'' ''paid'')\<rparr> =
       FetcherSubmit [(''actionType'', FString ''update''), (''fromStatus'', FString ''pending''),
                      (''toStatus'', FString ''paid''), (''orderCount'', FString ''2'')]
   \<and> action (Inr (\<lambda>call. Inl (GraphqlThrew ''unused'')))
        (Inr [(''actionType'', FString ''update''), (''orderCount'', FString ''0'')]) =
       (Inr (ReturnUpdate True (Finite 0) None None), [])
   \<and> action (Inr (\<lambda>call. Inl (GraphqlThrew ''unused''))) (Inr [(''actionType'', FString ''update'')]) =
       (Inr (ReturnUpdate True (Finite 0) None None), [])"
proof -
  let ?admin = "\<lambda>call. Inl (GraphqlThrew ''unused'') :: exn + json"
  let ?none = "\<lparr>fromStatus = ''pending'', toStatus = ''paid'', fetcher_state = Idle,
        fetcher_formData = None,
        fetcher_data = Some (SearchActionResponse [] False ''pending'' ''paid'')\<rparr>"
  let ?unset = "\<lparr>fromStatus = ''pending'', toStatus = [], fetcher_state = Idle,
        fetcher_formData = None,
        fetcher_data = Some (SearchActionResponse [] False ''pending'' [])\<rparr>"
  let ?two = "\<lparr>fromStatus = ''pending'', toStatus = ''paid'', fetcher_state = Idle,
        fetcher_formData = None,
        fetcher_data = Some (SearchActionResponse [edge ''1'', edge ''2''] False ''pending'' ''paid'')\<rparr>"
  let ?zero = "[(''actionType'', FString ''update''), (''orderCount'', FString ''0'')]"
  let ?bare = "[(''actionType'', FString ''update'')]"
  have e: "orders ?none = []" and e': "orders ?unset = []"
    by (simp_all add: orders_def)
  have t: "handleBulkUpdate ?none = ToastShow ''No orders found to update'' True"
    using empty_update_rejected_by_handler_only[where c = ?none and formData = ?zero and admin = ?admin, THEN conjunct1] e by simp
  have t': "handleBulkUpdate ?unset = ToastShow ''Please select a status to update to'' True"
    using empty_update_rejected_by_handler_only[where c = ?unset and formData = ?zero and admin = ?admin, THEN conjunct1] e' by simp
  have s: "handleBulkUpdate ?two =
       FetcherSubmit [(''actionType'', FString ''update''), (''fromStatus'', FString ''pending''),
                      (''toStatus'', FString ''paid''), (''orderCount'', FString ''2'')]"
    by (simp add: handleBulkUpdate_def orders_def Number_toString.simps char_eq_code)
  have sent: "formData_get [(''actionType'', FString ''update''), (''fromStatus'', FString ''pending''),
                      (''toStatus'', FString ''paid''), (''orderCount'', FString ''2'')]
          ''orderCount'' = Some (FString (Number_toString (length (orders ?two))))"
    using empty_update_rejected_by_handler_only[where c = ?two and formData = ?zero and admin = ?admin, THEN conjunct2,
        THEN conjunct1, rule_format, OF s] by simp
  have z: "action (Inr ?admin) (Inr ?zero) = (Inr (ReturnUpdate True (Finite 0) None None), [])"
    using empty_update_rejected_by_handler_only[where c = ?none and formData = ?zero and admin = ?admin, THEN conjunct2,
        THEN conjunct2]
    by (simp add: formData_get_def)
  have b: "action (Inr ?admin) (Inr ?bare) = (Inr (ReturnUpdate True (Finite 0) None None), [])"
    using empty_update_rejected_by_handler_only[where c = ?none and formData = ?bare and admin = ?admin, THEN conjunct2,
        THEN conjunct2]
    by (simp add: formData_get_def)
  show ?thesis using e t t' s sent z b by simp
qed

section \<open>What a search returns\<close>

text \<open>
  C2 as stated fails. The result would hold at most \<open>pageCap\<close> items and flag more exactly
  when the remote result set exceeds \<open>pageCap\<close>. The action has no cap of its own: it asks
  for one page with \<^verbatim>\<open>first: 250\<close> and hands on what the page holds. A store that serves
  two edges on a page and holds three orders yields two items flagged as having more, though
  three does not exceed 250; and a store that holds five orders yields all five, flagged as
  complete, which a cap of two would forbid.
\<close>

theorem search_cap_counterexample:
  "action (Inr (store_remote 2 (\<lambda>q. [edge ''1'', edge ''2'', edge ''3''])))
      (Inr [(''actionType'', FString ''search''), (''fromStatus'', FString ''pending'')]) =
     (Inr (ReturnSearch (JArr [edge ''1'', edge ''2'']) (JBool True)
            (Some (FString ''pending'')) None),
      [search_call (Some (FString ''pending''))])
   \<and> \<not> 250 < length [edge ''1'', edge ''2'', edge ''3'']
   \<and> action (Inr (store_remote 250
                    (\<lambda>q. [edge ''1'', edge ''2'', edge ''3'', edge ''4'', edge ''5''])))
      (Inr [(''actionType'', FString ''search''), (''fromStatus'', FString ''pending'')]) =
     (Inr (ReturnSearch (JArr [edge ''1'', edge ''2'', edge ''3'', edge ''4'', edge ''5''])
            (JBool False) (Some (FString ''pending'')) None),
      [search_call (Some (FString ''pending''))])
   \<and> \<not> length [edge ''1'', edge ''2'', edge ''3'', edge ''4'', edge ''5''] \<le> 2"
  by (simp add: eval_defs)

text \<open>
  C2, amended. The cap is not configurable, and the action enforces none: a search asks
  the remote for one page with \<^verbatim>\<open>first: 250\<close> and returns that page as it is. When the
  remote answers with the first \<open>k\<close> edges of the result set of the query, and with whether
  edges remain after them, the result holds the smaller of \<open>k\<close> and the size of the result
  set as its number of items, and \<^verbatim>\<open>hasNextPage\<close> is true exactly when the result set
  exceeds \<open>k\<close>. So the items stay within 250, with \<^verbatim>\<open>hasNextPage\<close> true exactly
  when the result set exceeds 250, when the remote serves pages of 250; with a shorter page
  \<^verbatim>\<open>hasNextPage\<close> is true as soon as the result set exceeds that page, and with a longer
  page the result holds more than 250 items.
\<close>

theorem search_returns_the_page_served:
  assumes "formData_get formData ''actionType'' = Some (FString ''search'')"
    and "admin (search_call (formData_get formData ''fromStatus'')) =
           Inr (orders_page (take k rs) (k < length rs))"
  shows "\<exists>call items hasNextPage.
           action (Inr admin) (Inr formData) =
             (Inr (ReturnSearch (JArr items) (JBool hasNextPage)
                    (formData_get formData ''fromStatus'')
                    (formData_get formData ''toStatus'')),
              [call])
         \<and> map_of (variables call) ''first'' = Some (JNum 250)
         \<and> items = take k rs
         \<and> length items = min k (length rs)
         \<and> (hasNextPage \<longleftrightarrow> k < length rs)
         \<and> (length items \<le> 250 \<longleftrightarrow> k \<le> 250 \<or> length rs \<le> 250)
         \<and> (k = 250 \<longrightarrow> length items \<le> 250 \<and> (hasNextPage \<longleftrightarrow> 250 < length rs))
         \<and> (k < 250 \<longrightarrow> length items < 250 \<and> (hasNextPage \<longleftrightarrow> length items < length rs))
         \<and> (250 < k \<and> 250 < length rs \<longrightarrow> 250 < length items)"
proof -
  let ?call = "search_call (formData_get formData ''fromStatus'')"
  have run: "action (Inr admin) (Inr formData) =
      (Inr (ReturnSearch (JArr (take k rs)) (JBool (k < length rs))
             (formData_get formData ''fromStatus'') (formData_get formData ''toStatus'')),
       [?call])"
    using action_search_page[of formData admin "take k rs" "k < length rs"] assms by simp
  have first: "map_of (variables ?call) ''first'' = Some (JNum 250)"
    by (simp add: search_call_def)
  have "length (take k rs) = min k (length rs)" by simp
  then have facts:
      "(length (take k rs) \<le> 250 \<longleftrightarrow> k \<le> 250 \<or> length rs \<le> 250)"
      "(k = 250 \<longrightarrow> length (take k rs) \<le> 250)"
      "(k < 250 \<longrightarrow> length (take k rs) < 250
          \<and> ((k < length rs) \<longleftrightarrow> length (take k rs) < length rs))"
      "(250 < k \<and> 250 < length rs \<longrightarrow> 250 < length (take k rs))"
    by (auto simp: min_def)
  show ?thesis
    apply (rule exI[of _ ?call], rule exI[of _ "take k rs"], rule exI[of _ "k < length rs"])
    using run first facts by simp
qed

theorem search_returns_the_page_served_witness:
  "formData_get [(''actionType'', FString ''search''), (''fromStatus'', FString ''paid'')]
      ''actionType'' = Some (FString ''search'')
   \<and> (\<exists>call items.
        action (Inr (\<lambda>call. Inr (orders_page (take 250 (replicate 251 (edge ''1'')))
                                   (250 < length (replicate 251 (edge ''1''))))))
          (Inr [(''actionType'', FString ''search''), (''fromStatus'', FString ''paid'')]) =
         (Inr (ReturnSearch (JArr items) (JBool True) (Some (FString ''paid'')) None), [call])
        \<and> length items = 250)
   \<and> (\<exists>call items.
        action (Inr (\<lambda>call. Inr (orders_page (take 2 [edge ''1'', edge ''2'', edge ''3''])
                                   (2 < length [edge ''1'', edge ''2'', edge ''3'']))))
          (Inr [(''actionType'', FString ''search''), (''fromStatus'', FString ''paid'')]) =
         (Inr (ReturnSearch (JArr items) (JBool True) (Some (FString ''paid'')) None), [call])
        \<and> length items = 2)
   \<and> (\<exists>call items.
        action (Inr (\<lambda>call. Inr (orders_page (take 300 (replicate 251 (edge ''1'')))
                                   (300 < length (replicate 251 (edge ''1''))))))
          (Inr [(''actionType'', FString ''search''), (''fromStatus'', FString ''paid'')]) =
         (Inr (ReturnSearch (JArr items) (JBool False) (Some (FString ''paid'')) None), [call])
        \<and> length items = 251)"
proof -
  let ?fd = "[(''actionType'', FString ''search''), (''fromStatus'', FString ''paid'')]"
  have h: "formData_get ?fd ''actionType'' = Some (FString ''search'')"
    by (simp add: formData_get_def)
  have full: "\<exists>call items.
        action (Inr (\<lambda>call. Inr (orders_page (take 250 (replicate 251 (edge ''1'')))
                                   (250 < length (replicate 251 (edge ''1''))))))
          (Inr ?fd) =
         (Inr (ReturnSearch (JArr items) (JBool True) (Some (FString ''paid'')) None), [call])
        \<and> length items = 250"
    using search_returns_the_page_served[of ?fd
        "\<lambda>call. Inr (orders_page (take 250 (replicate 251 (edge ''1'')))
                        (250 < length (replicate 251 (edge ''1''))))"
        250 "replicate 251 (edge ''1'')", OF h]
    by (auto simp: formData_get_def)
  have short: "\<exists>call items.
        action (Inr (\<lambda>call. Inr (orders_page (take 2 [edge ''1'', edge ''2'', edge ''3''])
                                   (2 < length [edge ''1'', edge ''2'', edge ''3'']))))
          (Inr ?fd) =
         (Inr (ReturnSearch (JArr items) (JBool True) (Some (FString ''paid'')) None), [call])
        \<and> length items = 2"
    using search_returns_the_page_served[of ?fd
        "\<lambda>call. Inr (orders_page (take 2 [edge ''1'', edge ''2'', edge ''3''])
                        (2 < length [edge ''1'', edge ''2'', edge ''3'']))"
        2 "[edge ''1'', edge ''2'', edge ''3'']", OF h]
    by (auto simp: formData_get_def)
  have long: "\<exists>call items.
        action (Inr (\<lambda>call. Inr (orders_page (take 300 (replicate 251 (edge ''1'')))
                                   (300 < length (replicate 251 (edge ''1''))))))
          (Inr ?fd) =
         (Inr (ReturnSearch (JArr items) (JBool False) (Some (FString ''paid'')) None), [call])
        \<and> length items = 251"
    using search_returns_the_page_served[of ?fd
        "\<lambda>call. Inr (orders_page (take 300 (replicate 251 (edge ''1'')))
                        (300 < length (replicate 251 (edge ''1''))))"
        300 "replicate 251 (edge ''1'')", OF h]
    by (auto simp: formData_get_def)
  show ?thesis using h full short long by blast
qed

text \<open>
  C3 as stated fails. The engine would go on fetching, each call with the cursor of the
  one before, until no page is left or \<open>pageCap\<close> items are held. Against a store that
  serves one edge on a page and holds two orders, the action makes a single call, which
  carries no cursor, and returns with one item while the page reports that more follow.
\<close>

theorem search_one_call_counterexample:
  "snd (action (Inr (store_remote 1 (\<lambda>q. [edge ''a'', edge ''b''])))
      (Inr [(''actionType'', FString ''search''), (''fromStatus'', FString ''paid'')])) =
     [\<lparr>document = ''query GetOrdersByFinancialStatus($first: Int!, $query: String!)'',
       variables = [(''first'', JNum 250), (''query'', JStr ''financial_status:paid'')]\<rparr>]
   \<and> fst (action (Inr (store_remote 1 (\<lambda>q. [edge ''a'', edge ''b''])))
      (Inr [(''actionType'', FString ''search''), (''fromStatus'', FString ''paid'')])) =
     Inr (ReturnSearch (JArr [edge ''a'']) (JBool True) (Some (FString ''paid'')) None)
   \<and> \<not> 250 \<le> length [edge ''a'']"
  by (simp add: eval_defs)

text \<open>
  C3, amended. A search calls the remote page fetch exactly once, whatever the remote
  answers or throws, with the two variables \<^verbatim>\<open>first\<close>, which is 250, and \<^verbatim>\<open>query\<close>,
  which is \<^verbatim>\<open>financial_status:\<close> followed by the submitted status; no cursor is passed.
\<close>

theorem search_calls_once:
  assumes "formData_get formData ''actionType'' = Some (FString ''search'')"
  shows "snd (action (Inr admin) (Inr formData)) =
           [search_call (formData_get formData ''fromStatus'')]
         \<and> variables (search_call (formData_get formData ''fromStatus'')) =
             [(''first'', JNum 250),
              (''query'',
               JStr (''financial_status:'' @ to_string (formData_get formData ''fromStatus'')))]"
  using action_search_calls[OF assms, of admin]
  by (simp add: search_call_def search_query_def)

theorem search_calls_once_witness:
  "formData_get [(''actionType'', FString ''search''), (''fromStatus'', FString ''paid'')]
      ''actionType'' = Some (FString ''search'')
   \<and> snd (action (Inr (\<lambda>call. Inr (orders_page [] True)))
        (Inr [(''actionType'', FString ''search''), (''fromStatus'', FString ''paid'')])) =
       [search_call (Some (FString ''paid''))]"
proof -
  let ?fd = "[(''actionType'', FString ''search''), (''fromStatus'', FString ''paid'')]"
  have h: "formData_get ?fd ''actionType'' = Some (FString ''search'')"
    by (simp add: formData_get_def)
  show ?thesis
    using h search_calls_once[OF h, of "\<lambda>call. Inr (orders_page [] True)"]
    by (simp add: formData_get_def)
qed

text \<open>
  C4 as stated fails. No two items of a search result would share an identifier. A page on
  which an order comes twice is returned as it is.
\<close>

theorem search_duplicate_counterexample:
  "action (Inr (\<lambda>call. Inr (orders_page [edge ''gid/1'', edge ''gid/2'', edge ''gid/1''] False)))
      (Inr [(''actionType'', FString ''search''), (''fromStatus'', FString ''paid'')]) =
     (Inr (ReturnSearch (JArr [edge ''gid/1'', edge ''gid/2'', edge ''gid/1'']) (JBool False)
            (Some (FString ''paid'')) None),
      [search_call (Some (FString ''paid''))])
   \<and> \<not> distinct (map edge_id [edge ''gid/1'', edge ''gid/2'', edge ''gid/1''])"
  by (simp add: eval_defs edge_id_def edge_def)

text \<open>
  C4, amended. The items of a search result are the edges of the page the remote returned,
  in the order of the page and with nothing removed; so no two items share an identifier
  exactly when no two edges of the page do.
\<close>

theorem search_returns_page_edges:
  assumes "formData_get formData ''actionType'' = Some (FString ''search'')"
    and "admin (search_call (formData_get formData ''fromStatus'')) = Inr (orders_page es h)"
  shows "fst (action (Inr admin) (Inr formData)) =
           Inr (ReturnSearch (JArr es) (JBool h)
                 (formData_get formData ''fromStatus'')
                 (formData_get formData ''toStatus''))"
  using action_search_page[OF assms(1), of admin es h] assms(2) by simp

theorem search_returns_page_edges_witness:
  "formData_get [(''actionType'', FString ''search'')] ''actionType'' = Some (FString ''search'')
   \<and> fst (action (Inr (\<lambda>call. Inr (orders_page [edge ''2'', edge ''1''] False)))
        (Inr [(''actionType'', FString ''search'')])) =
       Inr (ReturnSearch (JArr [edge ''2'', edge ''1'']) (JBool False) None None)"
proof -
  let ?fd = "[(''actionType'', FString ''search'')]"
  have h: "formData_get ?fd ''actionType'' = Some (FString ''search'')"
    by (simp add: formData_get_def)
  show ?thesis
    using h search_returns_page_edges[OF h,
        of "\<lambda>call. Inr (orders_page [edge ''2'', edge ''1''] False)" "[edge ''2'', edge ''1'']" False]
    by (simp add: formData_get_def)
qed

text \<open>
  C10 as stated fails. A response that lacks \<^verbatim>\<open>data\<close>, \<^verbatim>\<open>orders\<close> or \<^verbatim>\<open>pageInfo\<close>
  would give the empty list of orders and \<^verbatim>\<open>hasNextPage: false\<close>. A response that
  lacks \<^verbatim>\<open>pageInfo\<close> alone keeps its edges: the list of orders is not empty.
\<close>

theorem search_missing_pageInfo_counterexample:
  "get_prop (JObj [(''edges'', JArr [edge ''1''])]) ''pageInfo'' = JUndefined
   \<and> action (Inr (\<lambda>call. Inr (JObj [(''data'',
                 JObj [(''orders'', JObj [(''edges'', JArr [edge ''1''])])])])))
      (Inr [(''actionType'', FString ''search''), (''fromStatus'', FString ''paid'')]) =
     (Inr (ReturnSearch (JArr [edge ''1'']) (JBool False) (Some (FString ''paid'')) None),
      [search_call (Some (FString ''paid''))])
   \<and> JArr [edge ''1''] \<noteq> JArr []"
  by (simp add: eval_defs)

text \<open>
  C10, amended. For a response body that is not null: when \<^verbatim>\<open>data\<close> or \<^verbatim>\<open>data.orders\<close>
  is missing or null, the action returns the search response with the empty list of orders
  and \<^verbatim>\<open>hasNextPage: false\<close>; when \<^verbatim>\<open>data.orders.pageInfo\<close> is missing or null, it
  returns \<^verbatim>\<open>hasNextPage: false\<close> with the edges of the response as orders, or the empty
  list when those are missing. In neither case does it throw.
\<close>

theorem search_missing_fields:
  assumes "formData_get formData ''actionType'' = Some (FString ''search'')"
    and "admin (search_call (formData_get formData ''fromStatus'')) = Inr responseJson"
    and "\<not> nullish responseJson"
  shows "(nullish (get_prop responseJson ''data'')
            \<or> nullish (get_prop (get_prop responseJson ''data'') ''orders'') \<longrightarrow>
          action (Inr admin) (Inr formData) =
            (Inr (ReturnSearch (JArr []) (JBool False)
                   (formData_get formData ''fromStatus'')
                   (formData_get formData ''toStatus'')),
             [search_call (formData_get formData ''fromStatus'')]))
       \<and> (nullish (get_prop (get_prop (get_prop responseJson ''data'') ''orders'') ''pageInfo'') \<longrightarrow>
          action (Inr admin) (Inr formData) =
            (Inr (ReturnSearch
                   (js_or (opt_chain (opt_chain (get_prop responseJson ''data'') ''orders'')
                             ''edges'')
                      (JArr []))
                   (JBool False)
                   (formData_get formData ''fromStatus'')
                   (formData_get formData ''toStatus'')),
             [search_call (formData_get formData ''fromStatus'')]))"
  using action_search[of formData admin responseJson] assms
  by (auto simp: opt_chain_def js_or_def nullish_def)

theorem search_missing_fields_witness:
  "formData_get [(''actionType'', FString ''search'')] ''actionType'' = Some (FString ''search'')
   \<and> \<not> nullish (JObj [(''errors'', JArr [])])
   \<and> nullish (get_prop (JObj [(''errors'', JArr [])]) ''data'')
   \<and> action (Inr (\<lambda>call. Inr (JObj [(''errors'', JArr [])])))
        (Inr [(''actionType'', FString ''search'')]) =
       (Inr (ReturnSearch (JArr []) (JBool False) None None), [search_call None])
   \<and> nullish (get_prop (get_prop (get_prop
         (JObj [(''data'', JObj [(''orders'', JObj [(''edges'', JArr [edge ''1''])])])])
         ''data'') ''orders'') ''pageInfo'')
   \<and> action (Inr (\<lambda>call. Inr (JObj [(''data'',
                 JObj [(''orders'', JObj [(''edges'', JArr [edge ''1''])])])])))
        (Inr [(''actionType'', FString ''search'')]) =
       (Inr (ReturnSearch (JArr [edge ''1'']) (JBool False) None None), [search_call None])"
proof -
  let ?fd = "[(''actionType'', FString ''search'')]"
  let ?r = "JObj [(''errors'', JArr [])]"
  let ?r' = "JObj [(''data'', JObj [(''orders'', JObj [(''edges'', JArr [edge ''1''])])])]"
  have h: "formData_get ?fd ''actionType'' = Some (FString ''search'')"
    by (simp add: formData_get_def)
  have n: "\<not> nullish ?r" and n': "\<not> nullish ?r'"
    by (simp_all add: nullish_def)
  have d: "nullish (get_prop ?r ''data'')"
    by (simp add: nullish_def)
  have p: "nullish (get_prop (get_prop (get_prop ?r' ''data'') ''orders'') ''pageInfo'')"
    by (simp add: nullish_def)
  have "action (Inr (\<lambda>call. Inr ?r)) (Inr ?fd) =
      (Inr (ReturnSearch (JArr []) (JBool False) None None), [search_call None])"
    using search_missing_fields[of ?fd "\<lambda>call. Inr ?r" ?r, OF h _ n] d
    by (simp add: formData_get_def)
  moreover have "action (Inr (\<lambda>call. Inr ?r')) (Inr ?fd) =
      (Inr (ReturnSearch (JArr [edge ''1'']) (JBool False) None None), [search_call None])"
    using search_missing_fields[of ?fd "\<lambda>call. Inr ?r'" ?r', OF h _ n'] p
    by (simp add: formData_get_def opt_chain_def js_or_def nullish_def)
  ultimately show ?thesis using h n d p by simp
qed

section \<open>Status values\<close>

text \<open>
  C8 as stated fails. A status outside the allowed set would be rejected before any remote
  call. The action takes \<^verbatim>\<open>bogus\<close>, which is the value of no option, puts it in the query
  and calls the remote.
\<close>

theorem search_unvalidated_counterexample:
  "''bogus'' \<notin> snd ` set FINANCIAL_STATUS_OPTIONS
   \<and> action (Inr (store_remote 250 (\<lambda>q. [])))
      (Inr [(''actionType'', FString ''search''), (''fromStatus'', FString ''bogus'')]) =
     (Inr (ReturnSearch (JArr []) (JBool False) (Some (FString ''bogus'')) None),
      [\<lparr>document = ''query GetOrdersByFinancialStatus($first: Int!, $query: String!)'',
        variables = [(''first'', JNum 250), (''query'', JStr ''financial_status:bogus'')]\<rparr>])"
  by (simp add: eval_defs FINANCIAL_STATUS_OPTIONS_def)

text \<open>
  C8, amended. A status is checked for being empty only, and in the component only:
  \<^verbatim>\<open>handleSearch\<close> shows its error toast exactly when the status to search for is empty
  and submits the form otherwise, and \<^verbatim>\<open>handleBulkUpdate\<close> shows its error toast when
  the status to update to is empty. The action checks nothing: whatever string is submitted
  as the status to search for goes into the query of the remote call.
\<close>

theorem status_checked_for_empty_only:
  "(handleSearch c = ToastShow ''Please select a financial status to search for'' True
      \<longleftrightarrow> fromStatus c = [])
   \<and> (fromStatus c \<noteq> [] \<longrightarrow>
        handleSearch c = FetcherSubmit [(''actionType'', FString ''search''),
                                       (''fromStatus'', FString (fromStatus c)),
                                       (''toStatus'', FString (toStatus c))])
   \<and> (toStatus c = [] \<longrightarrow>
        handleBulkUpdate c = ToastShow ''Please select a status to update to'' True)
   \<and> snd (action (Inr admin)
            (Inr [(''actionType'', FString ''search''), (''fromStatus'', FString s),
                  (''toStatus'', FString t)])) =
       [\<lparr>document = ''query GetOrdersByFinancialStatus($first: Int!, $query: String!)'',
         variables = [(''first'', JNum 250), (''query'', JStr (''financial_status:'' @ s))]\<rparr>]"
proof -
  let ?fd = "[(''actionType'', FString ''search''), (''fromStatus'', FString s),
                  (''toStatus'', FString t)]"
  have "formData_get ?fd ''actionType'' = Some (FString ''search'')"
    by (simp add: formData_get_def)
  from action_search_calls[OF this, of admin]
  have "snd (action (Inr admin) (Inr ?fd)) = [search_call (Some (FString s))]"
    by (simp add: formData_get_def)
  then show ?thesis
    by (simp add: handleSearch_def handleBulkUpdate_def search_call_def search_query_def)
qed

theorem status_checked_for_empty_only_witness:
  "handleSearch \<lparr>fromStatus = [], toStatus = [], fetcher_state = Idle,
        fetcher_formData = None, fetcher_data = None\<rparr> =
     ToastShow ''Please select a financial status to search for'' True
   \<and> handleBulkUpdate \<lparr>fromStatus = [], toStatus = [], fetcher_state = Idle,
        fetcher_formData = None, fetcher_data = None\<rparr> =
     ToastShow ''Please select a status to update to'' True
   \<and> handleSearch \<lparr>fromStatus = ''paid'', toStatus = [], fetcher_state = Idle,
        fetcher_formData = None, fetcher_data = None\<rparr> =
     FetcherSubmit [(''actionType'', FString ''search''), (''fromStatus'', FString ''paid''),
                    (''toStatus'', FString [])]"
  using status_checked_for_empty_only[of "\<lparr>fromStatus = [], toStatus = [], fetcher_state = Idle,
        fetcher_formData = None, fetcher_data = None\<rparr>"
      "\<lambda>call. Inl (GraphqlThrew ''unused'')" "[]" "[]"]
    status_checked_for_empty_only[of "\<lparr>fromStatus = ''paid'', toStatus = [],
        fetcher_state = Idle, fetcher_formData = None, fetcher_data = None\<rparr>"
      "\<lambda>call. Inl (GraphqlThrew ''unused'')" "[]" "[]"]
  by simp

end
